theory Spec2Isabelle
  imports Main
begin

section \<open>Strings and clock readings\<close>

text \<open>
  A JavaScript string is a sequence of UTF-16 code units; \<open>length\<close> counts code units,
  as \<open>String.prototype.length\<close> does. A \<open>Date\<close> is its time value, the milliseconds since
  the epoch. Every reading of the clock (\<open>new Date()\<close>, \<open>Date.now()\<close>) and every random
  identifier (\<open>generateId()\<close>) is an explicit argument of the function that makes it.
\<close>

type_synonym jsstring = "nat list"

definition lit :: "string \<Rightarrow> jsstring" where
  "lit s = map of_char s"

text \<open>The code units that \<open>String.prototype.trim\<close> strips: white space and line terminators.\<close>

definition isWhiteSpace :: "nat \<Rightarrow> bool" where
  "isWhiteSpace c =
     (c = 9 \<or> c = 10 \<or> c = 11 \<or> c = 12 \<or> c = 13 \<or> c = 32 \<or> c = 160 \<or> c = 5760 \<or>
      (8192 \<le> c \<and> c \<le> 8202) \<or> c = 8232 \<or> c = 8233 \<or> c = 8239 \<or> c = 8287 \<or>
      c = 12288 \<or> c = 65279)"

definition trim :: "jsstring \<Rightarrow> jsstring" where
  "trim s = rev (dropWhile isWhiteSpace (rev (dropWhile isWhiteSpace s)))"

text \<open>\<open>s.split(' ')\<close>: the pieces between single spaces; the empty string gives one empty piece.\<close>

fun split_space :: "jsstring \<Rightarrow> jsstring list" where
  "split_space [] = [[]]"
| "split_space (c # cs) =
     (if c = 32 then [] # split_space cs
      else (case split_space cs of
              [] \<Rightarrow> [[c]]
            | w # ws \<Rightarrow> (c # w) # ws))"

text \<open>\<open>words.join(' ')\<close>.\<close>

fun join_space :: "jsstring list \<Rightarrow> jsstring" where
  "join_space [] = []"
| "join_space [w] = w"
| "join_space (w # v # ws) = w @ [32] @ join_space (v # ws)"

text \<open>The decimal digits of a number, as a template literal prints it.\<close>

fun digits :: "nat \<Rightarrow> jsstring" where
  "digits n = (if n < 10 then [48 + n] else digits (n div 10) @ [48 + n mod 10])"

declare digits.simps [simp del]

definition decimal :: "int \<Rightarrow> jsstring" where
  "decimal i = (if i < 0 then 45 # digits (nat (- i)) else digits (nat i))"

text \<open>\<open>a || b\<close> on a string that may be absent: the empty string is falsy.\<close>

definition truthy :: "jsstring option \<Rightarrow> bool" where
  "truthy v = (case v of None \<Rightarrow> False | Some s \<Rightarrow> s \<noteq> [])"

definition orElse :: "jsstring option \<Rightarrow> jsstring \<Rightarrow> jsstring" where
  "orElse v d = (if truthy v then (case v of None \<Rightarrow> d | Some s \<Rightarrow> s) else d)"

section \<open>Data model (types/index.ts)\<close>

datatype Role = User | Assistant

datatype ChatMode = Normal | DeepThink | Research

record Message =
  msg_id :: jsstring
  content :: jsstring
  role :: Role
  timestamp :: int
  msg_isTyping :: "bool option"

record Conversation =
  conv_id :: jsstring
  title :: jsstring
  messages :: "Message list"
  createdAt :: int
  updatedAt :: int
  mode :: "ChatMode option"

record ChatState =
  conversations :: "Conversation list"
  currentConversationId :: "jsstring option"
  isLoading :: bool
  isTyping :: bool
  error :: "jsstring option"

record 'a ApiResponse =
  data :: "'a option"
  success :: bool
  message :: "jsstring option"

record SendMessageRequest =
  req_message :: jsstring
  req_conversationId :: "jsstring option"
  req_mode :: ChatMode

record SendMessageResponse =
  res_message :: Message
  res_conversationId :: jsstring

text \<open>
  How an awaited backend call ends: it resolves with a response, or the promise is
  rejected and the \<open>catch\<close> block of the caller runs.
\<close>

datatype 'a ApiOutcome = Resolved "'a ApiResponse" | Rejected

section \<open>Constants (utils/constants.ts)\<close>

definition MAX_MESSAGE_LENGTH :: nat where
  "MAX_MESSAGE_LENGTH = 4000"

definition MAX_CONVERSATIONS :: nat where
  "MAX_CONVERSATIONS = 50"

section \<open>Helpers (utils/helpers.ts)\<close>

definition truncateText :: "jsstring \<Rightarrow> nat \<Rightarrow> jsstring" where
  "truncateText text maxLength =
     (if length text \<le> maxLength then text else take maxLength text @ lit ''...'')"

definition generateConversationTitle :: "jsstring \<Rightarrow> jsstring" where
  "generateConversationTitle firstMessage =
     (let words = split_space (trim firstMessage);
          t = join_space (take 6 words)
      in truncateText t 50)"

record Validation =
  isValid :: bool
  verror :: "jsstring option"

definition validateMessage :: "jsstring \<Rightarrow> Validation" where
  "validateMessage c =
     (if c = [] \<or> length (trim c) = 0
      then \<lparr>isValid = False, verror = Some (lit ''Message cannot be empty'')\<rparr>
      else if length c > MAX_MESSAGE_LENGTH
      then \<lparr>isValid = False,
            verror = Some (lit ''Message too long. Maximum '' @ digits MAX_MESSAGE_LENGTH @
                           lit '' characters allowed.'')\<rparr>
      else \<lparr>isValid = True, verror = None\<rparr>)"

definition createMessage :: "jsstring \<Rightarrow> int \<Rightarrow> jsstring \<Rightarrow> Role \<Rightarrow> Message" where
  "createMessage newId now c r =
     \<lparr>msg_id = newId, content = trim c, role = r, timestamp = now, msg_isTyping = Some False\<rparr>"

definition updateConversationWithMessage :: "int \<Rightarrow> Conversation \<Rightarrow> Message \<Rightarrow> Conversation" where
  "updateConversationWithMessage now conversation m =
     conversation
       \<lparr>messages := messages conversation @ [m],
        updatedAt := now,
        title := (if length (messages conversation) = 0
                  then generateConversationTitle (content m)
                  else title conversation)\<rparr>"

text \<open>
  \<open>Array.prototype.sort\<close> is stable; the comparator \<open>b.updatedAt - a.updatedAt\<close> orders by
  \<open>updatedAt\<close>, newest first. \<open>sort_key\<close> is the stable insertion sort of the library.
\<close>

definition sortConversationsByDate :: "Conversation list \<Rightarrow> Conversation list" where
  "sortConversationsByDate cs = sort_key (\<lambda>c. - updatedAt c) cs"

definition limitConversations :: "Conversation list \<Rightarrow> Conversation list" where
  "limitConversations cs = take MAX_CONVERSATIONS (sortConversationsByDate cs)"

section \<open>The reducer (contexts/ChatContext)\<close>

definition initialState :: ChatState where
  "initialState =
     \<lparr>conversations = [], currentConversationId = None, isLoading = False,
      isTyping = False, error = None\<rparr>"

datatype ChatAction =
    SET_LOADING bool
  | SET_TYPING bool
  | SET_ERROR "jsstring option"
  | SET_CONVERSATIONS "Conversation list"
  | ADD_CONVERSATION Conversation
  | UPDATE_CONVERSATION Conversation
  | DELETE_CONVERSATION jsstring
  | SET_CURRENT_CONVERSATION "jsstring option"
  | ADD_MESSAGE jsstring Message

text \<open>
  The reducer reads the clock in \<open>ADD_MESSAGE\<close> (through \<open>updateConversationWithMessage\<close>);
  the reading is its first argument, which no other action looks at.
\<close>

fun chatReducer :: "int \<Rightarrow> ChatState \<Rightarrow> ChatAction \<Rightarrow> ChatState" where
  "chatReducer now s (SET_LOADING b) = s\<lparr>isLoading := b\<rparr>"
| "chatReducer now s (SET_TYPING b) = s\<lparr>isTyping := b\<rparr>"
| "chatReducer now s (SET_ERROR e) = s\<lparr>error := e\<rparr>"
| "chatReducer now s (SET_CONVERSATIONS cs) = s\<lparr>conversations := cs\<rparr>"
| "chatReducer now s (ADD_CONVERSATION c) =
     s\<lparr>conversations := c # conversations s, currentConversationId := Some (conv_id c)\<rparr>"
| "chatReducer now s (UPDATE_CONVERSATION c) =
     s\<lparr>conversations := map (\<lambda>conv. if conv_id conv = conv_id c then c else conv) (conversations s)\<rparr>"
| "chatReducer now s (DELETE_CONVERSATION i) =
     s\<lparr>conversations := filter (\<lambda>conv. conv_id conv \<noteq> i) (conversations s),
       currentConversationId :=
         (if currentConversationId s = Some i then None else currentConversationId s)\<rparr>"
| "chatReducer now s (SET_CURRENT_CONVERSATION i) = s\<lparr>currentConversationId := i\<rparr>"
| "chatReducer now s (ADD_MESSAGE i m) =
     s\<lparr>conversations :=
         map (\<lambda>conv. if conv_id conv = i then updateConversationWithMessage now conv m else conv)
           (conversations s)\<rparr>"

section \<open>The provider's operations (contexts/ChatContext)\<close>

text \<open>
  An asynchronous operation closes over the \<open>state\<close> of the render that created it: every
  \<open>state.currentConversationId\<close> it reads, before or after the \<open>await\<close>, is the value of the
  state it was called on. Its dispatches go through the reducer, in order. The operations
  below run alone, with no other dispatch between their steps.
\<close>

definition createNewConversation :: "int \<Rightarrow> int \<Rightarrow> int \<Rightarrow> ChatState \<Rightarrow> ChatState \<times> jsstring" where
  "createNewConversation tId tCreated tUpdated s =
     (let newConversation =
            \<lparr>conv_id = lit ''conv-'' @ decimal tId, title = lit ''New Conversation'',
             messages = [], createdAt = tCreated, updatedAt = tUpdated, mode = Some Normal\<rparr>
      in (chatReducer tUpdated s (ADD_CONVERSATION newConversation), conv_id newConversation))"

definition selectConversation :: "jsstring \<Rightarrow> ChatState \<Rightarrow> ChatState" where
  "selectConversation i s = chatReducer 0 s (SET_CURRENT_CONVERSATION (Some i))"

definition clearError :: "ChatState \<Rightarrow> ChatState" where
  "clearError s = chatReducer 0 s (SET_ERROR None)"

text \<open>The derived \<open>currentConversation\<close> of the context value: \<open>find(...) || null\<close>.\<close>

definition currentConversation :: "ChatState \<Rightarrow> Conversation option" where
  "currentConversation s =
     (case currentConversationId s of
        None \<Rightarrow> None
      | Some i \<Rightarrow> List.find (\<lambda>conv. conv_id conv = i) (conversations s))"

text \<open>
  \<open>deleteConversation\<close>: the error is cleared, the backend is awaited, and the local
  \<open>DELETE_CONVERSATION\<close> is dispatched inside \<open>if (response.success)\<close>.
\<close>

definition deleteConversation :: "unit ApiOutcome \<Rightarrow> jsstring \<Rightarrow> ChatState \<Rightarrow> ChatState" where
  "deleteConversation outcome i s =
     (let s1 = chatReducer 0 s (SET_ERROR None)
      in (case outcome of
            Rejected \<Rightarrow> chatReducer 0 s1 (SET_ERROR (Some (lit ''Failed to delete conversation'')))
          | Resolved response \<Rightarrow>
              if success response then chatReducer 0 s1 (DELETE_CONVERSATION i)
              else chatReducer 0 s1
                     (SET_ERROR (Some (orElse (message response) (lit ''Failed to delete conversation''))))))"

text \<open>
  \<open>sendMessage\<close> up to its \<open>await\<close>: the state after the synchronous dispatches, and the
  request handed to \<open>apiService.sendMessage\<close>. \<open>newId\<close> and \<open>tMsg\<close> are the identifier and the
  clock reading of \<open>createMessage\<close>, \<open>tUpd\<close> the clock reading of the reducer.
\<close>

definition sendMessage_optimistic ::
  "jsstring \<Rightarrow> int \<Rightarrow> int \<Rightarrow> jsstring \<Rightarrow> ChatMode \<Rightarrow> ChatState \<Rightarrow> ChatState \<times> SendMessageRequest" where
  "sendMessage_optimistic newId tMsg tUpd c md s =
     (let cur = currentConversationId s;
          s1 = chatReducer tUpd s (SET_ERROR None);
          userMessage = createMessage newId tMsg c User;
          s2 = (case cur of
                  None \<Rightarrow> s1
                | Some i \<Rightarrow> if i = [] then s1 else chatReducer tUpd s1 (ADD_MESSAGE i userMessage));
          s3 = chatReducer tUpd s2 (SET_TYPING True)
      in (s3, \<lparr>req_message = c,
                req_conversationId = (if truthy cur then cur else None),
                req_mode = md\<rparr>))"

text \<open>
  \<open>sendMessage\<close> after the \<open>await\<close>. \<open>cur\<close> is the \<open>state.currentConversationId\<close> of the
  closure, \<open>s\<close> the state the dispatches meet. Destructuring \<open>response.data\<close> when it is
  \<open>null\<close> throws, which the \<open>catch\<close> block turns into the error message; \<open>finally\<close> clears the
  typing flag on every path.
\<close>

definition sendMessage_settle ::
  "int \<Rightarrow> jsstring option \<Rightarrow> SendMessageResponse ApiOutcome \<Rightarrow> ChatState \<Rightarrow> ChatState" where
  "sendMessage_settle tUpd cur outcome s =
     (let failed = chatReducer tUpd s (SET_ERROR (Some (lit ''Failed to send message'')));
          s' = (case outcome of
                  Rejected \<Rightarrow> failed
                | Resolved response \<Rightarrow>
                    if success response then
                      (case data response of
                         None \<Rightarrow> failed
                       | Some d \<Rightarrow>
                           let sa = (if \<not> truthy cur
                                     then chatReducer tUpd s
                                            (SET_CURRENT_CONVERSATION (Some (res_conversationId d)))
                                     else s)
                           in chatReducer tUpd sa (ADD_MESSAGE (res_conversationId d) (res_message d)))
                    else chatReducer tUpd s
                           (SET_ERROR (Some (orElse (message response) (lit ''Failed to send message'')))))
      in chatReducer tUpd s' (SET_TYPING False))"

definition sendMessage ::
  "jsstring \<Rightarrow> int \<Rightarrow> int \<Rightarrow> int \<Rightarrow> jsstring \<Rightarrow> ChatMode \<Rightarrow> SendMessageResponse ApiOutcome \<Rightarrow>
     ChatState \<Rightarrow> ChatState" where
  "sendMessage newId tMsg tUpd tUpd' c md outcome s =
     sendMessage_settle tUpd' (currentConversationId s) outcome
       (fst (sendMessage_optimistic newId tMsg tUpd c md s))"

text \<open>A backend call that did not succeed: rejected, or resolved with \<open>success = false\<close>.\<close>

definition backendFailed :: "'a ApiOutcome \<Rightarrow> bool" where
  "backendFailed outcome =
     (case outcome of Rejected \<Rightarrow> True | Resolved response \<Rightarrow> \<not> success response)"

text \<open>
  \<open>loadConversations\<close> of the provider ("Load conversations from API"): the synchronous
  dispatches before the \<open>await\<close>, and the rest. With \<open>response.data\<close> \<open>null\<close> the spread in
  \<open>sortConversationsByDate\<close> throws and the \<open>catch\<close> block runs.
\<close>

definition loadConversations_begin :: "ChatState \<Rightarrow> ChatState" where
  "loadConversations_begin s =
     chatReducer 0 (chatReducer 0 s (SET_LOADING True)) (SET_ERROR None)"

definition loadConversations_settle :: "Conversation list ApiOutcome \<Rightarrow> ChatState \<Rightarrow> ChatState" where
  "loadConversations_settle outcome s =
     (let failed = chatReducer 0 s (SET_ERROR (Some (lit ''Failed to load conversations'')));
          s' = (case outcome of
                  Rejected \<Rightarrow> failed
                | Resolved response \<Rightarrow>
                    if success response then
                      (case data response of
                         None \<Rightarrow> failed
                       | Some d \<Rightarrow> chatReducer 0 s (SET_CONVERSATIONS (limitConversations d)))
                    else chatReducer 0 s
                           (SET_ERROR (Some (orElse (message response)
                                                (lit ''Failed to load conversations'')))))
      in chatReducer 0 s' (SET_LOADING False))"

section \<open>JSON and the storage service (services/storage.ts)\<close>

text \<open>
  The values handed to the storage service are untyped (\<open>any\<close>): \<open>jsval\<close> is the run-time
  value, in which a \<open>Date\<close> object and a string are different things. \<open>json\<close> is the document
  that \<open>JSON.stringify\<close> writes and \<open>JSON.parse\<close> reads, as a tree rather than as text.
  \<open>JSON.stringify\<close> writes a \<open>Date\<close> as the string its \<open>toISOString\<close> returns (the argument
  \<open>toISO\<close>), drops a property whose value is \<open>undefined\<close>, writes \<open>null\<close> for an \<open>undefined\<close> array
  element, and returns \<open>undefined\<close> (here \<open>None\<close>) for \<open>undefined\<close> itself. \<open>JSON.parse\<close> is
  called without a reviver. Numbers are the integers.
\<close>

datatype jsval =
    JUndefined | JNull | JBool bool | JNum int | JStr jsstring | JDate int
  | JArr "jsval list" | JObj "(jsstring \<times> jsval) list"

datatype json =
    TNull | TBool bool | TNum int | TStr jsstring
  | TArr "json list" | TObj "(jsstring \<times> json) list"

primrec JSON_stringify :: "(int \<Rightarrow> jsstring) \<Rightarrow> jsval \<Rightarrow> json option" where
  "JSON_stringify toISO JUndefined = None"
| "JSON_stringify toISO JNull = Some TNull"
| "JSON_stringify toISO (JBool b) = Some (TBool b)"
| "JSON_stringify toISO (JNum n) = Some (TNum n)"
| "JSON_stringify toISO (JStr s) = Some (TStr s)"
| "JSON_stringify toISO (JDate t) = Some (TStr (toISO t))"
| "JSON_stringify toISO (JArr xs) =
     Some (TArr (map (\<lambda>r. case r of None \<Rightarrow> TNull | Some j \<Rightarrow> j) (map (JSON_stringify toISO) xs)))"
| "JSON_stringify toISO (JObj kvs) =
     Some (TObj (List.map_filter (\<lambda>(k, r). map_option (Pair k) r)
                   (map (map_prod id (JSON_stringify toISO)) kvs)))"

primrec JSON_parse :: "json \<Rightarrow> jsval" where
  "JSON_parse TNull = JNull"
| "JSON_parse (TBool b) = JBool b"
| "JSON_parse (TNum n) = JNum n"
| "JSON_parse (TStr s) = JStr s"
| "JSON_parse (TArr xs) = JArr (map JSON_parse xs)"
| "JSON_parse (TObj kvs) = JObj (map (map_prod id JSON_parse) kvs)"

text \<open>What \<open>v || d\<close> tests.\<close>

fun js_truthy :: "jsval \<Rightarrow> bool" where
  "js_truthy JUndefined = False"
| "js_truthy JNull = False"
| "js_truthy (JBool b) = b"
| "js_truthy (JNum n) = (n \<noteq> 0)"
| "js_truthy (JStr s) = (s \<noteq> [])"
| "js_truthy (JDate t) = True"
| "js_truthy (JArr xs) = True"
| "js_truthy (JObj kvs) = True"

text \<open>
  \<open>localStorage\<close>: whether the probe of \<open>isAvailable\<close> succeeds, and the item under each key.
  An item is a JSON document, or text that \<open>JSON.parse\<close> rejects (such as the text
  \<open>undefined\<close> that \<open>setItem\<close> stores when \<open>JSON.stringify\<close> returns \<open>undefined\<close>). A write that
  the medium refuses although the probe succeeded (quota) is not modelled.
\<close>

datatype stored = Document json | Unparsable

record LocalStorage =
  available :: bool
  items :: "jsstring \<Rightarrow> stored option"

definition getItem :: "LocalStorage \<Rightarrow> jsstring \<Rightarrow> jsval option" where
  "getItem st key =
     (if \<not> available st then None
      else (case items st key of
              None \<Rightarrow> None
            | Some Unparsable \<Rightarrow> None
            | Some (Document j) \<Rightarrow> Some (JSON_parse j)))"

definition setItem :: "(int \<Rightarrow> jsstring) \<Rightarrow> LocalStorage \<Rightarrow> jsstring \<Rightarrow> jsval \<Rightarrow> LocalStorage" where
  "setItem toISO st key v =
     (if \<not> available st then st
      else st\<lparr>items := (items st)
                 (key \<mapsto> (case JSON_stringify toISO v of
                              None \<Rightarrow> Unparsable
                            | Some j \<Rightarrow> Document j))\<rparr>)"

definition removeItem :: "LocalStorage \<Rightarrow> jsstring \<Rightarrow> LocalStorage" where
  "removeItem st key =
     (if \<not> available st then st else st\<lparr>items := (items st)(key := None)\<rparr>)"

definition KEY_CONVERSATIONS :: jsstring where
  "KEY_CONVERSATIONS = lit ''dbaas_chat_conversations''"

definition KEY_CURRENT_CONVERSATION :: jsstring where
  "KEY_CURRENT_CONVERSATION = lit ''dbaas_current_conversation_id''"

definition storageUtils_saveConversations ::
  "(int \<Rightarrow> jsstring) \<Rightarrow> LocalStorage \<Rightarrow> jsval list \<Rightarrow> LocalStorage" where
  "storageUtils_saveConversations toISO st convs = setItem toISO st KEY_CONVERSATIONS (JArr convs)"

definition storageUtils_loadConversations :: "LocalStorage \<Rightarrow> jsval" where
  "storageUtils_loadConversations st =
     (case getItem st KEY_CONVERSATIONS of
        None \<Rightarrow> JArr []
      | Some v \<Rightarrow> if js_truthy v then v else JArr [])"

definition storageUtils_saveCurrentConversationId ::
  "(int \<Rightarrow> jsstring) \<Rightarrow> LocalStorage \<Rightarrow> jsstring option \<Rightarrow> LocalStorage" where
  "storageUtils_saveCurrentConversationId toISO st i =
     (case i of
        None \<Rightarrow> removeItem st KEY_CURRENT_CONVERSATION
      | Some v \<Rightarrow> if v = [] then removeItem st KEY_CURRENT_CONVERSATION
                  else setItem toISO st KEY_CURRENT_CONVERSATION (JStr v))"

definition storageUtils_loadCurrentConversationId :: "LocalStorage \<Rightarrow> jsval option" where
  "storageUtils_loadCurrentConversationId st = getItem st KEY_CURRENT_CONVERSATION"

text \<open>The objects behind the typed records, property by property; an absent optional
  property is left out.\<close>

definition Role_js :: "Role \<Rightarrow> jsval" where
  "Role_js r = JStr (case r of User \<Rightarrow> lit ''user'' | Assistant \<Rightarrow> lit ''assistant'')"

definition ChatMode_js :: "ChatMode \<Rightarrow> jsval" where
  "ChatMode_js m =
     JStr (case m of Normal \<Rightarrow> lit ''normal'' | DeepThink \<Rightarrow> lit ''deepthink''
           | Research \<Rightarrow> lit ''research'')"

definition Message_js :: "Message \<Rightarrow> jsval" where
  "Message_js m =
     JObj ([(lit ''id'', JStr (msg_id m)), (lit ''content'', JStr (content m)),
            (lit ''role'', Role_js (role m)), (lit ''timestamp'', JDate (timestamp m))] @
           (case msg_isTyping m of None \<Rightarrow> [] | Some b \<Rightarrow> [(lit ''isTyping'', JBool b)]))"

definition Conversation_js :: "Conversation \<Rightarrow> jsval" where
  "Conversation_js c =
     JObj ([(lit ''id'', JStr (conv_id c)), (lit ''title'', JStr (title c)),
            (lit ''messages'', JArr (map Message_js (messages c))),
            (lit ''createdAt'', JDate (createdAt c)), (lit ''updatedAt'', JDate (updatedAt c))] @
           (case mode c of None \<Rightarrow> [] | Some m \<Rightarrow> [(lit ''mode'', ChatMode_js m)]))"

text \<open>
  \<open>loadCurrentConversation\<close> of the provider: the saved id is installed when it is truthy.
  The key is written by \<open>saveCurrentConversationId\<close> only, always with a string; an item of
  another shape has no place in the typed state and leaves it as it is.
\<close>

definition loadCurrentConversation :: "LocalStorage \<Rightarrow> ChatState \<Rightarrow> ChatState" where
  "loadCurrentConversation st s =
     (case storageUtils_loadCurrentConversationId st of
        Some (JStr i) \<Rightarrow>
          if i \<noteq> [] then chatReducer 0 s (SET_CURRENT_CONVERSATION (Some i)) else s
      | _ \<Rightarrow> s)"

text \<open>
  The mount effect: \<open>loadConversations()\<close> runs to its \<open>await\<close>, \<open>loadCurrentConversation()\<close>
  runs, and the backend's answer is handled afterwards.
\<close>

definition loadInitialState :: "LocalStorage \<Rightarrow> Conversation list ApiOutcome \<Rightarrow> ChatState \<Rightarrow> ChatState" where
  "loadInitialState st outcome s =
     loadConversations_settle outcome (loadCurrentConversation st (loadConversations_begin s))"

section \<open>Example states\<close>

definition exConv :: Conversation where
  "exConv =
     \<lparr>conv_id = lit ''c1'', title = lit ''New Conversation'', messages = [],
      createdAt = 0, updatedAt = 0, mode = Some Normal\<rparr>"

definition exState :: ChatState where
  "exState =
     \<lparr>conversations = [exConv], currentConversationId = Some (lit ''c1''),
      isLoading = False, isTyping = False, error = None\<rparr>"

definition exConv2 :: Conversation where
  "exConv2 =
     \<lparr>conv_id = lit ''c2'', title = lit ''hello'',
      messages = [\<lparr>msg_id = lit ''m0'', content = lit ''hello'', role = User, timestamp = 8,
                   msg_isTyping = Some False\<rparr>],
      createdAt = 8, updatedAt = 9, mode = Some Normal\<rparr>"

definition exState2 :: ChatState where
  "exState2 =
     \<lparr>conversations = [exConv, exConv2], currentConversationId = Some (lit ''c1''),
      isLoading = False, isTyping = False, error = None\<rparr>"

definition exAiMessage :: Message where
  "exAiMessage =
     \<lparr>msg_id = lit ''a1'', content = lit ''Great question!'', role = Assistant, timestamp = 9,
      msg_isTyping = Some False\<rparr>"

definition exSendOk :: "SendMessageResponse ApiOutcome" where
  "exSendOk =
     Resolved \<lparr>data = Some \<lparr>res_message = exAiMessage, res_conversationId = lit ''srv1''\<rparr>,
               success = True, message = Some (lit ''Message sent successfully'')\<rparr>"

definition exDeleteOk :: "unit ApiOutcome" where
  "exDeleteOk =
     Resolved \<lparr>data = None, success = True,
               message = Some (lit ''Conversation deleted successfully'')\<rparr>"

definition exDeleteFailed :: "unit ApiOutcome" where
  "exDeleteFailed =
     Resolved \<lparr>data = None, success = False, message = Some (lit ''Conversation not found'')\<rparr>"

definition exListOk :: "Conversation list ApiOutcome" where
  "exListOk =
     Resolved \<lparr>data = Some [exConv2], success = True,
               message = Some (lit ''Conversations loaded successfully'')\<rparr>"

definition exConvN :: "nat \<Rightarrow> Conversation" where
  "exConvN n =
     \<lparr>conv_id = lit ''conv-'' @ decimal (int n), title = lit ''New Conversation'', messages = [],
      createdAt = int n, updatedAt = int n, mode = Some Normal\<rparr>"

definition exState50 :: ChatState where
  "exState50 =
     \<lparr>conversations = map exConvN (rev [0..<50]), currentConversationId = Some (lit ''conv-49''),
      isLoading = False, isTyping = False, error = None\<rparr>"

definition emptyStorage :: LocalStorage where
  "emptyStorage = \<lparr>available = True, items = (\<lambda>key. None)\<rparr>"

definition exStorage :: LocalStorage where
  "exStorage =
     \<lparr>available = True,
      items = (\<lambda>key. None)
        (KEY_CONVERSATIONS \<mapsto>
           Document (TArr [TObj [(lit ''id'', TStr (lit ''c1'')),
                                 (lit ''title'', TStr (lit ''New Conversation'')),
                                 (lit ''messages'', TArr []),
                                 (lit ''createdAt'', TStr (lit ''1970-01-01T00:00:00.000Z'')),
                                 (lit ''updatedAt'', TStr (lit ''1970-01-01T00:00:00.000Z'')),
                                 (lit ''mode'', TStr (lit ''normal''))]]))\<rparr>"

section \<open>Properties of the send pipeline\<close>

lemma orElse_nonempty: "d \<noteq> [] \<Longrightarrow> orElse v d \<noteq> []"
  by (cases v) (simp_all add: orElse_def truthy_def)

lemma lit_nonempty: "s \<noteq> [] \<Longrightarrow> lit s \<noteq> []"
  by (simp add: lit_def)

lemma optimistic_conversations:
  "currentConversationId s = Some cid \<Longrightarrow> cid \<noteq> [] \<Longrightarrow>
   conversations (fst (sendMessage_optimistic newId tMsg tUpd c md s)) =
     map (\<lambda>conv. if conv_id conv = cid
                  then updateConversationWithMessage tUpd conv (createMessage newId tMsg c User)
                  else conv) (conversations s)"
  by (simp add: sendMessage_optimistic_def Let_def)

lemma settle_failed:
  assumes "backendFailed outcome"
  shows "conversations (sendMessage_settle t cur outcome s) = conversations s"
    and "isTyping (sendMessage_settle t cur outcome s) = False"
    and "\<exists>e. error (sendMessage_settle t cur outcome s) = Some e \<and> e \<noteq> []"
  using assms
  by (auto simp: sendMessage_settle_def backendFailed_def Let_def orElse_nonempty lit_nonempty
           split: ApiOutcome.splits)

text \<open>
  C10. When a conversation is selected and the backend call fails (the promise is rejected,
  or it resolves with \<open>success = false\<close>), then after the send has settled the typing flag is
  clear, \<open>error\<close> holds a non-empty failure message, and the selected conversation holds its
  former messages followed by the optimistic user message (so a conversation that was empty
  holds exactly that one message); every other conversation is untouched.
\<close>

theorem sendMessage_failure_keeps_user_message:
  assumes sel: "currentConversationId s = Some cid" and ne: "cid \<noteq> []"
    and fail: "backendFailed outcome"
  shows "let s' = sendMessage newId tMsg tUpd tUpd' c md outcome s;
             um = createMessage newId tMsg c User
         in isTyping s' = False \<and>
            (\<exists>e. error s' = Some e \<and> e \<noteq> []) \<and>
            role um = User \<and> content um = trim c \<and>
            length (conversations s') = length (conversations s) \<and>
            (\<forall>i < length (conversations s).
               (conv_id (conversations s ! i) = cid \<longrightarrow>
                  conv_id (conversations s' ! i) = cid \<and>
                  messages (conversations s' ! i) = messages (conversations s ! i) @ [um]) \<and>
               (conv_id (conversations s ! i) \<noteq> cid \<longrightarrow>
                  conversations s' ! i = conversations s ! i))"
proof -
  define s' where "s' = sendMessage newId tMsg tUpd tUpd' c md outcome s"
  define um where "um = createMessage newId tMsg c User"
  have cs: "conversations s' =
      map (\<lambda>conv. if conv_id conv = cid then updateConversationWithMessage tUpd conv um else conv)
        (conversations s)"
    unfolding s'_def um_def sendMessage_def
    by (simp add: settle_failed(1)[OF fail] optimistic_conversations[OF sel ne])
  have ty: "isTyping s' = False"
    unfolding s'_def sendMessage_def by (rule settle_failed(2)[OF fail])
  have er: "\<exists>e. error s' = Some e \<and> e \<noteq> []"
    unfolding s'_def sendMessage_def by (rule settle_failed(3)[OF fail])
  have um_ok: "role um = User \<and> content um = trim c"
    by (simp add: um_def createMessage_def)
  have idx: "\<forall>i < length (conversations s).
               (conv_id (conversations s ! i) = cid \<longrightarrow>
                  conv_id (conversations s' ! i) = cid \<and>
                  messages (conversations s' ! i) = messages (conversations s ! i) @ [um]) \<and>
               (conv_id (conversations s ! i) \<noteq> cid \<longrightarrow>
                  conversations s' ! i = conversations s ! i)"
    by (simp add: cs updateConversationWithMessage_def)
  have len: "length (conversations s') = length (conversations s)"
    by (simp add: cs)
  show ?thesis
    using ty er um_ok len idx unfolding s'_def um_def Let_def by blast
qed

theorem sendMessage_failure_keeps_user_message_witness:
  "currentConversationId exState = Some (lit ''c1'') \<and> lit ''c1'' \<noteq> [] \<and>
   backendFailed (Rejected :: SendMessageResponse ApiOutcome) \<and>
   isTyping (sendMessage (lit ''m1'') 5 6 7 (lit ''hi'') Normal Rejected exState) = False \<and>
   error (sendMessage (lit ''m1'') 5 6 7 (lit ''hi'') Normal Rejected exState) \<noteq> None \<and>
   messages (conversations (sendMessage (lit ''m1'') 5 6 7 (lit ''hi'') Normal Rejected exState) ! 0) =
     [createMessage (lit ''m1'') 5 (lit ''hi'') User] \<and>
   length (messages (conversations
     (sendMessage (lit ''m1'') 5 6 7 (lit ''hi'') Normal Rejected exState) ! 0)) = 1"
proof -
  have h1: "currentConversationId exState = Some (lit ''c1'')"
    by (simp add: exState_def)
  have h2: "lit ''c1'' \<noteq> []"
    by (simp add: lit_def)
  have h3: "backendFailed (Rejected :: SendMessageResponse ApiOutcome)"
    by (simp add: backendFailed_def)
  have c0: "conversations exState ! 0 = exConv" "length (conversations exState) = 1"
    by (simp_all add: exState_def)
  have c1: "conv_id exConv = lit ''c1''" "messages exConv = []"
    by (simp_all add: exConv_def)
  from sendMessage_failure_keeps_user_message [OF h1 h2 h3,
      of "lit ''m1''" 5 6 7 "lit ''hi''" Normal]
  show ?thesis
    using h1 h2 h3 c0 c1 by (auto simp: Let_def)
qed

lemma sum_messages_after_append:
  "distinct (map conv_id cs) \<Longrightarrow>
   (\<Sum>conv\<leftarrow>map (\<lambda>conv. if conv_id conv = cid then updateConversationWithMessage t conv m else conv) cs.
        length (messages conv)) =
   (\<Sum>conv\<leftarrow>cs. length (messages conv)) + (if cid \<in> conv_id ` set cs then 1 else 0)"
proof (induction cs)
  case Nil
  then show ?case by simp
next
  case (Cons a cs)
  then show ?case
    by (auto simp: updateConversationWithMessage_def)
qed

text \<open>
  C4 (as amended). When the current selection is a non-empty id that names exactly one
  conversation of the collection, the synchronous part of \<open>sendMessage\<close> appends exactly one
  message, with role \<open>user\<close> and the trimmed text as content, to that conversation: its
  messages are the former ones followed by the new one, every other conversation is
  untouched, and the number of messages in the collection grows by one. The text is not
  validated.
\<close>

theorem sendMessage_appends_one_user_message:
  assumes sel: "currentConversationId s = Some cid" and ne: "cid \<noteq> []"
    and present: "cid \<in> conv_id ` set (conversations s)"
    and uniq: "distinct (map conv_id (conversations s))"
  shows "let s1 = fst (sendMessage_optimistic newId tMsg tUpd c md s);
             um = createMessage newId tMsg c User
         in role um = User \<and> content um = trim c \<and>
            length (conversations s1) = length (conversations s) \<and>
            (\<forall>i < length (conversations s).
               (conv_id (conversations s ! i) = cid \<longrightarrow>
                  conv_id (conversations s1 ! i) = cid \<and>
                  messages (conversations s1 ! i) = messages (conversations s ! i) @ [um]) \<and>
               (conv_id (conversations s ! i) \<noteq> cid \<longrightarrow>
                  conversations s1 ! i = conversations s ! i)) \<and>
            (\<Sum>conv\<leftarrow>conversations s1. length (messages conv)) =
              (\<Sum>conv\<leftarrow>conversations s. length (messages conv)) + 1"
proof -
  define um where "um = createMessage newId tMsg c User"
  define s1 where "s1 = fst (sendMessage_optimistic newId tMsg tUpd c md s)"
  have cs: "conversations s1 =
      map (\<lambda>conv. if conv_id conv = cid then updateConversationWithMessage tUpd conv um else conv)
        (conversations s)"
    unfolding s1_def um_def by (rule optimistic_conversations[OF sel ne])
  have um_ok: "role um = User \<and> content um = trim c"
    by (simp add: um_def createMessage_def)
  have len: "length (conversations s1) = length (conversations s)"
    by (simp add: cs)
  have idx: "\<forall>i < length (conversations s).
               (conv_id (conversations s ! i) = cid \<longrightarrow>
                  conv_id (conversations s1 ! i) = cid \<and>
                  messages (conversations s1 ! i) = messages (conversations s ! i) @ [um]) \<and>
               (conv_id (conversations s ! i) \<noteq> cid \<longrightarrow>
                  conversations s1 ! i = conversations s ! i)"
    by (simp add: cs updateConversationWithMessage_def)
  have total: "(\<Sum>conv\<leftarrow>conversations s1. length (messages conv)) =
              (\<Sum>conv\<leftarrow>conversations s. length (messages conv)) + 1"
    using sum_messages_after_append[OF uniq, of cid tUpd um] present by (simp add: cs)
  show ?thesis
    using um_ok len idx total unfolding s1_def um_def Let_def by blast
qed

lemma trim_hi: "trim (lit ''hi'') = lit ''hi''"
  by (simp add: lit_def trim_def isWhiteSpace_def)

text \<open>
  Against C4 as stated: \<open>selectConversation\<close> accepts any id, and with the selection on an id
  that no conversation has, a valid text is appended nowhere.
\<close>

theorem sendMessage_unknown_selection_counterexample:
  "isValid (validateMessage (lit ''hi'')) \<and>
   currentConversationId (selectConversation (lit ''ghost'') exState) = Some (lit ''ghost'') \<and>
   conversations (fst (sendMessage_optimistic (lit ''m1'') 5 6 (lit ''hi'') Normal
                         (selectConversation (lit ''ghost'') exState))) = [exConv] \<and>
   messages exConv = []"
proof -
  have v: "isValid (validateMessage (lit ''hi''))"
    by (simp add: validateMessage_def trim_hi MAX_MESSAGE_LENGTH_def) (simp add: lit_def)
  have neq: "lit ''c1'' \<noteq> lit ''ghost''" "lit ''ghost'' \<noteq> []"
    by (simp_all add: lit_def)
  have sel: "currentConversationId (selectConversation (lit ''ghost'') exState) = Some (lit ''ghost'')"
    "conversations (selectConversation (lit ''ghost'') exState) = [exConv]"
    by (simp_all add: selectConversation_def exState_def)
  have cv: "conv_id exConv = lit ''c1''" "messages exConv = []"
    by (simp_all add: exConv_def)
  have cs: "conversations (fst (sendMessage_optimistic (lit ''m1'') 5 6 (lit ''hi'') Normal
                         (selectConversation (lit ''ghost'') exState))) = [exConv]"
    using neq by (simp add: optimistic_conversations[OF sel(1) neq(2)] sel(2) cv)
  show ?thesis using v sel(1) cs cv(2) by blast
qed

theorem sendMessage_appends_one_user_message_witness:
  "currentConversationId exState2 = Some (lit ''c1'') \<and> lit ''c1'' \<noteq> [] \<and>
   lit ''c1'' \<in> conv_id ` set (conversations exState2) \<and>
   distinct (map conv_id (conversations exState2)) \<and>
   messages (conversations (fst (sendMessage_optimistic (lit ''m1'') 5 6 (lit ''hi'') Normal exState2)) ! 0)
     = [createMessage (lit ''m1'') 5 (lit ''hi'') User] \<and>
   conversations (fst (sendMessage_optimistic (lit ''m1'') 5 6 (lit ''hi'') Normal exState2)) ! 1 = exConv2 \<and>
   (\<Sum>conv\<leftarrow>conversations (fst (sendMessage_optimistic (lit ''m1'') 5 6 (lit ''hi'') Normal exState2)).
       length (messages conv)) = 2"
proof -
  have h1: "currentConversationId exState2 = Some (lit ''c1'')"
    by (simp add: exState2_def)
  have h2: "lit ''c1'' \<noteq> []"
    by (simp add: lit_def)
  have ids: "conv_id exConv = lit ''c1''" "conv_id exConv2 = lit ''c2''"
    "messages exConv = []" "length (messages exConv2) = 1"
    by (simp_all add: exConv_def exConv2_def)
  have neq: "lit ''c1'' \<noteq> lit ''c2''"
    by (simp add: lit_def)
  have cs: "conversations exState2 = [exConv, exConv2]"
    by (simp add: exState2_def)
  have h3: "lit ''c1'' \<in> conv_id ` set (conversations exState2)"
    by (simp add: cs ids)
  have h4: "distinct (map conv_id (conversations exState2))"
    by (simp add: cs ids neq)
  from sendMessage_appends_one_user_message [OF h1 h2 h3 h4, of "lit ''m1''" 5 6 "lit ''hi''" Normal]
  have t: "let s1 = fst (sendMessage_optimistic (lit ''m1'') 5 6 (lit ''hi'') Normal exState2);
             um = createMessage (lit ''m1'') 5 (lit ''hi'') User
         in role um = User \<and> content um = trim (lit ''hi'') \<and>
            length (conversations s1) = length (conversations exState2) \<and>
            (\<forall>i < length (conversations exState2).
               (conv_id (conversations exState2 ! i) = lit ''c1'' \<longrightarrow>
                  conv_id (conversations s1 ! i) = lit ''c1'' \<and>
                  messages (conversations s1 ! i) = messages (conversations exState2 ! i) @ [um]) \<and>
               (conv_id (conversations exState2 ! i) \<noteq> lit ''c1'' \<longrightarrow>
                  conversations s1 ! i = conversations exState2 ! i)) \<and>
            (\<Sum>conv\<leftarrow>conversations s1. length (messages conv)) =
              (\<Sum>conv\<leftarrow>conversations exState2. length (messages conv)) + 1" .
  have i0: "messages (conversations (fst (sendMessage_optimistic (lit ''m1'') 5 6 (lit ''hi'') Normal exState2)) ! 0)
     = [createMessage (lit ''m1'') 5 (lit ''hi'') User]"
    using t by (simp add: Let_def cs ids)
  have i1: "conversations (fst (sendMessage_optimistic (lit ''m1'') 5 6 (lit ''hi'') Normal exState2)) ! 1 = exConv2"
    using t neq by (simp add: Let_def cs ids All_less_Suc)
  have tot: "(\<Sum>conv\<leftarrow>conversations (fst (sendMessage_optimistic (lit ''m1'') 5 6 (lit ''hi'') Normal exState2)).
       length (messages conv)) = 2"
    using t by (simp add: Let_def cs ids)
  show ?thesis using h1 h2 h3 h4 i0 i1 tot by blast
qed

section \<open>Properties of deletion and selection\<close>

text \<open>
  Against C1 as stated: deleting the only conversation, which is the current one, with a
  backend that succeeds leaves the collection empty and the selection \<open>null\<close>; no
  conversation is created.
\<close>

theorem deleteConversation_only_conversation_counterexample:
  "conversations (deleteConversation exDeleteOk (lit ''c1'') exState) = [] \<and>
   currentConversationId (deleteConversation exDeleteOk (lit ''c1'') exState) = None"
  by (simp add: deleteConversation_def exDeleteOk_def exState_def exConv_def Let_def)

text \<open>
  C1 (as amended). When the backend delete succeeds, \<open>deleteConversation(id)\<close> removes every
  conversation with that id from the collection and keeps the others in order; if the id was
  the current selection, \<open>currentConversationId\<close> becomes \<open>null\<close> (the store neither selects
  another conversation nor creates one), otherwise it is unchanged. So
  \<open>currentConversationId\<close> never points at the deleted id.
\<close>

theorem deleteConversation_success:
  assumes ok: "outcome = Resolved response" and succ: "success response"
  shows "let s' = deleteConversation outcome i s
         in conversations s' = filter (\<lambda>conv. conv_id conv \<noteq> i) (conversations s) \<and>
            i \<notin> conv_id ` set (conversations s') \<and>
            currentConversationId s' =
              (if currentConversationId s = Some i then None else currentConversationId s) \<and>
            currentConversationId s' \<noteq> Some i"
  using ok succ by (auto simp: deleteConversation_def Let_def)

theorem deleteConversation_success_witness:
  "exDeleteOk = Resolved \<lparr>data = None, success = True,
                  message = Some (lit ''Conversation deleted successfully'')\<rparr> \<and>
   conversations (deleteConversation exDeleteOk (lit ''c1'') exState2) = [exConv2] \<and>
   currentConversationId (deleteConversation exDeleteOk (lit ''c1'') exState2) = None"
proof -
  have h1: "exDeleteOk = Resolved \<lparr>data = None, success = True,
                  message = Some (lit ''Conversation deleted successfully'')\<rparr>"
    by (simp add: exDeleteOk_def)
  have h2: "success \<lparr>data = None :: unit option, success = True,
                  message = Some (lit ''Conversation deleted successfully'')\<rparr>"
    by simp
  have neq: "lit ''c1'' \<noteq> lit ''c2''"
    by (simp add: lit_def)
  have st: "conversations exState2 = [exConv, exConv2]"
    "currentConversationId exState2 = Some (lit ''c1'')"
    "conv_id exConv = lit ''c1''" "conv_id exConv2 = lit ''c2''"
    by (simp_all add: exState2_def exConv_def exConv2_def)
  from deleteConversation_success [OF h1 h2, of "lit ''c1''" exState2]
  show ?thesis using h1 neq st by (simp add: Let_def)
qed

text \<open>
  Against C5 as stated: when the backend delete fails the conversation is still in the local
  collection.
\<close>

theorem deleteConversation_backend_failure_counterexample:
  "backendFailed exDeleteFailed \<and>
   conversations (deleteConversation exDeleteFailed (lit ''c1'') exState) = [exConv] \<and>
   conv_id exConv = lit ''c1''"
  by (simp add: deleteConversation_def exDeleteFailed_def exState_def exConv_def Let_def
        backendFailed_def)

text \<open>
  C5 (as amended). When the backend delete fails (rejected, or \<open>success = false\<close>),
  \<open>deleteConversation\<close> sets \<open>error\<close> to a non-empty message and leaves the collection and
  the current selection as they were: the local deletion is dispatched only inside
  \<open>if (response.success)\<close>.
\<close>

theorem deleteConversation_failure_keeps_collection:
  assumes fail: "backendFailed outcome"
  shows "let s' = deleteConversation outcome i s
         in conversations s' = conversations s \<and>
            currentConversationId s' = currentConversationId s \<and>
            (\<exists>e. error s' = Some e \<and> e \<noteq> [])"
  using fail
  by (auto simp: deleteConversation_def backendFailed_def Let_def orElse_nonempty lit_nonempty
           split: ApiOutcome.splits)

theorem deleteConversation_failure_keeps_collection_witness:
  "backendFailed (Rejected :: unit ApiOutcome) \<and>
   conversations (deleteConversation Rejected (lit ''c1'') exState) = [exConv] \<and>
   currentConversationId (deleteConversation Rejected (lit ''c1'') exState) = Some (lit ''c1'') \<and>
   error (deleteConversation Rejected (lit ''c1'') exState) \<noteq> None"
proof -
  have h: "backendFailed (Rejected :: unit ApiOutcome)"
    by (simp add: backendFailed_def)
  have st: "conversations exState = [exConv]"
    "currentConversationId exState = Some (lit ''c1'')"
    by (simp_all add: exState_def)
  from deleteConversation_failure_keeps_collection [OF h, of "lit ''c1''" exState]
  show ?thesis using h st by (auto simp: Let_def)
qed

text \<open>
  Against C9 as stated: selecting an id that is not in the collection is not a no-op, and
  leaves \<open>currentConversationId\<close> on an id that no conversation has.
\<close>

theorem selectConversation_unknown_id_counterexample:
  "currentConversationId (selectConversation (lit ''ghost'') initialState) = Some (lit ''ghost'') \<and>
   conversations (selectConversation (lit ''ghost'') initialState) = [] \<and>
   selectConversation (lit ''ghost'') initialState \<noteq> initialState"
  by (simp add: selectConversation_def initialState_def)

lemma currentConversation_sound:
  "currentConversation t = Some conv \<Longrightarrow>
     conv \<in> set (conversations t) \<and> currentConversationId t = Some (conv_id conv)"
  by (auto simp: currentConversation_def find_Some_iff split: option.splits)

lemma currentConversation_None:
  "currentConversation t = None \<Longrightarrow> currentConversationId t = Some i \<Longrightarrow>
     i \<notin> conv_id ` set (conversations t)"
  by (auto simp: currentConversation_def find_None_iff split: option.splits)

text \<open>
  C9 (as amended). \<open>selectConversation(id)\<close> sets \<open>currentConversationId\<close> to \<open>id\<close> whether or
  not the collection has such a conversation, and changes nothing else. What holds in every
  state \<open>t\<close> is the statement about the derived \<open>currentConversation\<close>: it is \<open>null\<close> or a
  conversation of the collection whose id is \<open>currentConversationId\<close>; after selecting an
  unknown id it is \<open>null\<close>.
\<close>

theorem selectConversation_sets_id_unchecked:
  "currentConversationId (selectConversation i s) = Some i \<and>
   conversations (selectConversation i s) = conversations s \<and>
   (case currentConversation (selectConversation i s) of
      None \<Rightarrow> i \<notin> conv_id ` set (conversations s)
    | Some conv \<Rightarrow> conv \<in> set (conversations s) \<and> conv_id conv = i) \<and>
   (case currentConversation t of
      None \<Rightarrow> True
    | Some conv \<Rightarrow> conv \<in> set (conversations t) \<and> currentConversationId t = Some (conv_id conv))"
proof -
  have a: "currentConversationId (selectConversation i s) = Some i"
    and b: "conversations (selectConversation i s) = conversations s"
    by (simp_all add: selectConversation_def)
  have c: "(case currentConversation (selectConversation i s) of
      None \<Rightarrow> i \<notin> conv_id ` set (conversations s)
    | Some conv \<Rightarrow> conv \<in> set (conversations s) \<and> conv_id conv = i)"
  proof (cases "currentConversation (selectConversation i s)")
    case None
    have "i \<notin> conv_id ` set (conversations s)"
      using currentConversation_None[OF None a] b by simp
    then show ?thesis unfolding None by simp
  next
    case (Some conv)
    have "conv \<in> set (conversations s) \<and> conv_id conv = i"
      using currentConversation_sound[OF Some] a b by simp
    then show ?thesis unfolding Some by simp
  qed
  have d: "(case currentConversation t of
      None \<Rightarrow> True
    | Some conv \<Rightarrow> conv \<in> set (conversations t) \<and> currentConversationId t = Some (conv_id conv))"
    using currentConversation_sound[of t] by (simp split: option.splits)
  show ?thesis using a b c d by blast
qed

theorem selectConversation_sets_id_unchecked_witness:
  "currentConversationId (selectConversation (lit ''c2'') exState) = Some (lit ''c2'') \<and>
   conversations (selectConversation (lit ''c2'') exState) = [exConv] \<and>
   currentConversation (selectConversation (lit ''c2'') exState) = None \<and>
   currentConversation exState = Some exConv"
proof -
  have neq: "lit ''c1'' \<noteq> lit ''c2''"
    by (simp add: lit_def)
  have st: "conversations exState = [exConv]" "conv_id exConv = lit ''c1''"
    "currentConversationId exState = Some (lit ''c1'')"
    by (simp_all add: exState_def exConv_def)
  have cur: "currentConversation exState = Some exConv"
    by (simp add: currentConversation_def st)
  have none: "currentConversation (selectConversation (lit ''c2'') exState) = None"
    using neq by (simp add: currentConversation_def selectConversation_def st)
  from selectConversation_sets_id_unchecked [of "lit ''c2''" exState exState]
  show ?thesis using st cur none by simp
qed

section \<open>Sending without a selection, validation, capacity\<close>

lemma sendMessage_keeps_collection_size:
  "length (conversations (sendMessage newId tMsg tUpd tUpd' c md outcome s)) =
     length (conversations s)"
  by (simp add: sendMessage_def sendMessage_settle_def sendMessage_optimistic_def Let_def
           split: ApiOutcome.splits option.splits)

text \<open>
  C2. The claim asks that a send with no conversation selected creates a conversation in the
  collection, selects it, and leaves it with two messages. The code evaluated at that input:
  from the initial state, with a backend that succeeds and names the conversation \<open>srv1\<close>,
  the collection is still empty after the send, \<open>currentConversationId\<close> is \<open>srv1\<close>, an id no
  local conversation has, and the derived \<open>currentConversation\<close> is \<open>null\<close>; neither the
  user's message nor the reply is stored.
\<close>

theorem sendMessage_without_selection_creates_no_conversation:
  "currentConversationId initialState = None \<and>
   conversations (sendMessage (lit ''m1'') 5 6 7 (lit ''hello'') Normal exSendOk initialState) = [] \<and>
   currentConversationId (sendMessage (lit ''m1'') 5 6 7 (lit ''hello'') Normal exSendOk initialState)
     = Some (lit ''srv1'') \<and>
   currentConversation (sendMessage (lit ''m1'') 5 6 7 (lit ''hello'') Normal exSendOk initialState)
     = None \<and>
   error (sendMessage (lit ''m1'') 5 6 7 (lit ''hello'') Normal exSendOk initialState) = None"
  by (simp add: sendMessage_def sendMessage_settle_def sendMessage_optimistic_def Let_def
        initialState_def exSendOk_def truthy_def currentConversation_def)

lemma trim_empty: "trim [] = []"
  by (simp add: trim_def)

text \<open>
  Against C3 as stated: with the empty text, which \<open>validateMessage\<close> rejects, \<open>sendMessage\<close>
  changes the state (a user message with empty content is appended to the selected
  conversation) and hands a request to the backend.
\<close>

theorem sendMessage_empty_text_counterexample:
  "trim [] = [] \<and> \<not> isValid (validateMessage []) \<and>
   fst (sendMessage_optimistic (lit ''m1'') 5 6 [] Normal exState) \<noteq> exState \<and>
   messages (conversations (fst (sendMessage_optimistic (lit ''m1'') 5 6 [] Normal exState)) ! 0) =
     [\<lparr>msg_id = lit ''m1'', content = [], role = User, timestamp = 5, msg_isTyping = Some False\<rparr>] \<and>
   snd (sendMessage_optimistic (lit ''m1'') 5 6 [] Normal exState) =
     \<lparr>req_message = [], req_conversationId = Some (lit ''c1''), req_mode = Normal\<rparr>"
proof -
  have ne: "lit ''c1'' \<noteq> []" by (simp add: lit_def)
  have v: "\<not> isValid (validateMessage [])"
    by (simp add: validateMessage_def)
  have st: "conversations exState = [exConv]" "currentConversationId exState = Some (lit ''c1'')"
    "isTyping exState = False"
    by (simp_all add: exState_def)
  have cv: "conv_id exConv = lit ''c1''" "messages exConv = []"
    by (simp_all add: exConv_def)
  have m: "messages (conversations (fst (sendMessage_optimistic (lit ''m1'') 5 6 [] Normal exState)) ! 0) =
     [\<lparr>msg_id = lit ''m1'', content = [], role = User, timestamp = 5, msg_isTyping = Some False\<rparr>]"
    using ne
    by (simp add: sendMessage_optimistic_def Let_def st cv updateConversationWithMessage_def
          createMessage_def trim_empty)
  have ty: "isTyping (fst (sendMessage_optimistic (lit ''m1'') 5 6 [] Normal exState)) = True"
    by (simp add: sendMessage_optimistic_def Let_def st split: option.splits)
  have d: "fst (sendMessage_optimistic (lit ''m1'') 5 6 [] Normal exState) \<noteq> exState"
    using ty st(3) by auto
  have r: "snd (sendMessage_optimistic (lit ''m1'') 5 6 [] Normal exState) =
     \<lparr>req_message = [], req_conversationId = Some (lit ''c1''), req_mode = Normal\<rparr>"
    using ne by (simp add: sendMessage_optimistic_def Let_def st truthy_def)
  show ?thesis using trim_empty v d m r by blast
qed

lemma trim_Nil_imp: "c = [] \<Longrightarrow> trim c = []"
  by (simp add: trim_def)

text \<open>
  C3 (as amended). \<open>validateMessage\<close> rejects exactly the texts whose trimmed form is empty or
  whose length exceeds \<open>MAX_MESSAGE_LENGTH\<close> (4000), and gives an error message exactly when
  it rejects. \<open>sendMessage\<close> does not call it: for every text it sets the typing flag and
  hands the text to the backend.
\<close>

theorem validateMessage_rejects_and_sendMessage_does_not_validate:
  "(\<not> isValid (validateMessage c)) = (trim c = [] \<or> MAX_MESSAGE_LENGTH < length c) \<and>
   (verror (validateMessage c) = None) = isValid (validateMessage c) \<and>
   req_message (snd (sendMessage_optimistic newId tMsg tUpd c md s)) = c \<and>
   isTyping (fst (sendMessage_optimistic newId tMsg tUpd c md s)) = True"
proof -
  have a: "(\<not> isValid (validateMessage c)) = (trim c = [] \<or> MAX_MESSAGE_LENGTH < length c)"
    using trim_Nil_imp[of c] by (auto simp: validateMessage_def)
  have b: "(verror (validateMessage c) = None) = isValid (validateMessage c)"
    by (simp add: validateMessage_def)
  have c: "req_message (snd (sendMessage_optimistic newId tMsg tUpd c md s)) = c"
    by (simp add: sendMessage_optimistic_def Let_def)
  have d: "isTyping (fst (sendMessage_optimistic newId tMsg tUpd c md s)) = True"
    by (simp add: sendMessage_optimistic_def Let_def split: option.splits)
  show ?thesis using a b c d by blast
qed

theorem validateMessage_rejects_and_sendMessage_does_not_validate_witness:
  "\<not> isValid (validateMessage [32, 32]) \<and> trim [32, 32] = [] \<and>
   \<not> isValid (validateMessage (replicate 4001 97)) \<and>
   isValid (validateMessage (lit ''hi'')) \<and>
   req_message (snd (sendMessage_optimistic (lit ''m1'') 5 6 [32, 32] Normal exState)) = [32, 32]"
proof -
  have t1: "trim [32, 32] = []"
    by (simp add: trim_def isWhiteSpace_def)
  have l: "MAX_MESSAGE_LENGTH < length (replicate 4001 (97::nat))"
    by (simp add: MAX_MESSAGE_LENGTH_def)
  have t3: "trim (lit ''hi'') \<noteq> []" "\<not> MAX_MESSAGE_LENGTH < length (lit ''hi'')"
    by (simp_all add: trim_hi) (simp_all add: lit_def MAX_MESSAGE_LENGTH_def)
  from validateMessage_rejects_and_sendMessage_does_not_validate
         [of "[32, 32]" "lit ''m1''" 5 6 Normal exState]
       validateMessage_rejects_and_sendMessage_does_not_validate
         [of "replicate 4001 97" "lit ''m1''" 5 6 Normal exState]
       validateMessage_rejects_and_sendMessage_does_not_validate
         [of "lit ''hi''" "lit ''m1''" 5 6 Normal exState]
  show ?thesis using t1 l t3 by blast
qed

lemma limitConversations_length: "length (limitConversations cs) \<le> MAX_CONVERSATIONS"
  by (simp add: limitConversations_def)

lemma limitConversations_subset: "set (limitConversations cs) \<subseteq> set cs"
proof -
  have "set (limitConversations cs) \<subseteq> set (sortConversationsByDate cs)"
    unfolding limitConversations_def by (rule set_take_subset)
  then show ?thesis by (simp add: sortConversationsByDate_def)
qed

lemma createNewConversation_grows:
  "length (conversations (fst (createNewConversation tId tC tU s))) = Suc (length (conversations s))"
  by (simp add: createNewConversation_def Let_def)

text \<open>
  C6. The claim asks that the collection never exceeds \<open>MAX_CONVERSATIONS\<close>. The code
  evaluated at a collection of fifty conversations: \<open>createNewConversation\<close> leaves fifty-one,
  the least recently updated one among them. Only \<open>limitConversations\<close>, applied to the
  backend's list when it is loaded, keeps to the cap (\<open>limitConversations_length\<close>).
\<close>

theorem createNewConversation_at_cap_exceeds_cap:
  "length (conversations exState50) = MAX_CONVERSATIONS \<and>
   length (conversations (fst (createNewConversation 50 50 50 exState50))) = 51 \<and>
   exConvN 0 \<in> set (conversations (fst (createNewConversation 50 50 50 exState50))) \<and>
   updatedAt (exConvN 0) = 0"
proof -
  have a: "length (conversations exState50) = MAX_CONVERSATIONS"
    by (simp add: exState50_def MAX_CONVERSATIONS_def)
  have b: "length (conversations (fst (createNewConversation 50 50 50 exState50))) = 51"
    by (simp add: createNewConversation_grows) (simp add: exState50_def)
  have "exConvN 0 \<in> set (conversations exState50)"
    by (simp add: exState50_def)
  then have c: "exConvN 0 \<in> set (conversations (fst (createNewConversation 50 50 50 exState50)))"
    by (simp add: createNewConversation_def Let_def)
  have d: "updatedAt (exConvN 0) = 0"
    by (simp add: exConvN_def)
  show ?thesis using a b c d by blast
qed

section \<open>Persistence and the initial load\<close>

lemma getItem_setItem:
  "available st \<Longrightarrow> JSON_stringify toISO v = Some j \<Longrightarrow>
     getItem (setItem toISO st key v) key = Some (JSON_parse j)"
  by (simp add: getItem_def setItem_def)

lemma Date_does_not_round_trip:
  "JSON_stringify toISO (JDate t) = Some j \<Longrightarrow> JSON_parse j = JStr (toISO t)"
  by auto

text \<open>
  C7. The claim asks that saving and restoring gives back the saved state, the \<open>Date\<close> fields
  included. The code evaluated at one conversation created at the epoch, saved to an empty
  available storage and loaded again: \<open>createdAt\<close> and \<open>updatedAt\<close> come back as the strings
  \<open>toISOString\<close> wrote, not as \<open>Date\<close> objects, so the restored value differs from the saved
  one, whatever \<open>toISOString\<close> returns.
\<close>

theorem storage_round_trip_returns_dates_as_strings:
  "storageUtils_loadConversations
     (storageUtils_saveConversations toISO emptyStorage [Conversation_js exConv]) =
     JArr [JObj [(lit ''id'', JStr (lit ''c1'')),
                 (lit ''title'', JStr (lit ''New Conversation'')),
                 (lit ''messages'', JArr []),
                 (lit ''createdAt'', JStr (toISO 0)),
                 (lit ''updatedAt'', JStr (toISO 0)),
                 (lit ''mode'', JStr (lit ''normal''))]] \<and>
   storageUtils_loadConversations
     (storageUtils_saveConversations toISO emptyStorage [Conversation_js exConv]) \<noteq>
     JArr [Conversation_js exConv]"
proof -
  have js: "Conversation_js exConv =
      JObj [(lit ''id'', JStr (lit ''c1'')),
            (lit ''title'', JStr (lit ''New Conversation'')),
            (lit ''messages'', JArr []),
            (lit ''createdAt'', JDate 0),
            (lit ''updatedAt'', JDate 0),
            (lit ''mode'', JStr (lit ''normal''))]"
    by (simp add: Conversation_js_def exConv_def ChatMode_js_def)
  have av: "available emptyStorage"
    by (simp add: emptyStorage_def)
  have str: "JSON_stringify toISO (JArr [Conversation_js exConv]) =
      Some (TArr [TObj [(lit ''id'', TStr (lit ''c1'')),
                 (lit ''title'', TStr (lit ''New Conversation'')),
                 (lit ''messages'', TArr []),
                 (lit ''createdAt'', TStr (toISO 0)),
                 (lit ''updatedAt'', TStr (toISO 0)),
                 (lit ''mode'', TStr (lit ''normal''))]])"
    by (simp add: js)
  have ld: "storageUtils_loadConversations
     (storageUtils_saveConversations toISO emptyStorage [Conversation_js exConv]) =
     JArr [JObj [(lit ''id'', JStr (lit ''c1'')),
                 (lit ''title'', JStr (lit ''New Conversation'')),
                 (lit ''messages'', JArr []),
                 (lit ''createdAt'', JStr (toISO 0)),
                 (lit ''updatedAt'', JStr (toISO 0)),
                 (lit ''mode'', JStr (lit ''normal''))]]"
    unfolding storageUtils_loadConversations_def storageUtils_saveConversations_def
    by (simp add: getItem_setItem[OF av str])
  show ?thesis unfolding ld by (simp add: js)
qed

text \<open>
  Against C8 as stated: with a conversation persisted in storage, the initial load still
  takes the backend's answer, and the installed collection is the backend's list, not the
  persisted one.
\<close>

theorem loadInitialState_ignores_persisted_conversations_counterexample:
  "storageUtils_loadConversations exStorage \<noteq> JArr [] \<and>
   conversations (loadInitialState exStorage exListOk initialState) = [exConv2] \<and>
   conv_id exConv2 = lit ''c2''"
proof -
  have a: "storageUtils_loadConversations exStorage \<noteq> JArr []"
    by (simp add: storageUtils_loadConversations_def getItem_def exStorage_def)
  have lim: "limitConversations [exConv2] = [exConv2]"
    by (simp add: limitConversations_def sortConversationsByDate_def MAX_CONVERSATIONS_def)
  have b: "conversations (loadInitialState exStorage exListOk initialState) = [exConv2]"
    by (simp add: loadInitialState_def loadConversations_settle_def exListOk_def Let_def lim)
  have c: "conv_id exConv2 = lit ''c2''"
    by (simp add: exConv2_def)
  show ?thesis using a b c by blast
qed

lemma loadCurrentConversation_conversations:
  "conversations (loadCurrentConversation st s) = conversations s"
  by (simp add: loadCurrentConversation_def split: option.splits jsval.splits)

lemma saved_id_is_read:
  "available st \<Longrightarrow> i \<noteq> [] \<Longrightarrow>
   currentConversationId
     (loadCurrentConversation (storageUtils_saveCurrentConversationId toISO st (Some i)) s) = Some i"
  by (simp add: loadCurrentConversation_def storageUtils_saveCurrentConversationId_def
        storageUtils_loadCurrentConversationId_def getItem_def setItem_def)

lemma saveConversations_available:
  "available (storageUtils_saveConversations toISO st cs) = available st"
  by (simp add: storageUtils_saveConversations_def setItem_def)

lemma settle_success:
  "success response \<Longrightarrow> data response = Some d \<Longrightarrow>
   conversations (loadConversations_settle (Resolved response) s) = limitConversations d \<and>
   currentConversationId (loadConversations_settle (Resolved response) s) = currentConversationId s \<and>
   isLoading (loadConversations_settle (Resolved response) s) = False \<and>
   error (loadConversations_settle (Resolved response) s) = error s"
  by (simp add: loadConversations_settle_def Let_def)

lemma loadCurrentConversation_reads_one_item:
  "available st1 = available st2 \<Longrightarrow>
   items st1 KEY_CURRENT_CONVERSATION = items st2 KEY_CURRENT_CONVERSATION \<Longrightarrow>
   loadCurrentConversation st1 s = loadCurrentConversation st2 s"
  by (simp add: loadCurrentConversation_def storageUtils_loadCurrentConversationId_def
        getItem_def)

lemma loadInitialState_reads_one_item:
  "available st1 = available st2 \<Longrightarrow>
   items st1 KEY_CURRENT_CONVERSATION = items st2 KEY_CURRENT_CONVERSATION \<Longrightarrow>
   loadInitialState st1 outcome s = loadInitialState st2 outcome s"
  using loadCurrentConversation_reads_one_item[of st1 st2 "loadConversations_begin s"]
  by (simp add: loadInitialState_def)

lemma loadConversations_begin_fields:
  "conversations (loadConversations_begin s) = conversations s"
  "currentConversationId (loadConversations_begin s) = currentConversationId s"
  "error (loadConversations_begin s) = None"
  by (simp_all add: loadConversations_begin_def)

lemma loadCurrentConversation_error:
  "error (loadCurrentConversation st s) = error s"
  by (simp add: loadCurrentConversation_def split: option.splits jsval.splits)

lemma settle_conversations:
  "conversations (loadConversations_settle outcome s) =
     (case outcome of
        Rejected \<Rightarrow> conversations s
      | Resolved response \<Rightarrow>
          if success response
          then (case data response of None \<Rightarrow> conversations s | Some d \<Rightarrow> limitConversations d)
          else conversations s)"
  by (simp add: loadConversations_settle_def Let_def split: ApiOutcome.splits option.splits)

lemma settle_selection_and_loading:
  "currentConversationId (loadConversations_settle outcome s) = currentConversationId s"
  "isLoading (loadConversations_settle outcome s) = False"
  by (simp_all add: loadConversations_settle_def Let_def split: ApiOutcome.splits option.splits)

lemma settle_failed_load:
  "backendFailed outcome \<Longrightarrow>
     \<exists>e. error (loadConversations_settle outcome s) = Some e \<and> e \<noteq> []"
  by (auto simp: loadConversations_settle_def backendFailed_def Let_def orElse_nonempty
        lit_nonempty split: ApiOutcome.splits)

lemma loadInitialState_conversations:
  "conversations (loadInitialState st outcome s) =
     (case outcome of
        Rejected \<Rightarrow> conversations s
      | Resolved response \<Rightarrow>
          if success response
          then (case data response of None \<Rightarrow> conversations s | Some d \<Rightarrow> limitConversations d)
          else conversations s)"
  by (simp add: loadInitialState_def settle_conversations loadCurrentConversation_conversations
        loadConversations_begin_fields split: ApiOutcome.splits option.splits)

text \<open>
  C8 (as amended). The initial load always asks the backend and never reads the persisted
  conversations. For every storage, every answer of the backend and every state:
  the load depends on the storage only through its availability and the item saved under
  the current-conversation key (two storages that agree on these give the same state,
  whatever else they hold); the installed collection is \<open>limitConversations\<close> of the
  backend's list when the backend answers with one (at most \<open>MAX_CONVERSATIONS\<close> of its
  conversations, and no error), and the collection the load started from on every other
  answer, with a non-empty error message when the backend failed; loading ends with
  \<open>isLoading\<close> false; and a non-empty id saved in an available storage is installed as
  \<open>currentConversationId\<close> on every answer, whichever conversations were saved beside it.
\<close>

theorem loadInitialState_installs_backend_list:
  "(available st1 = available st2 \<longrightarrow>
      items st1 KEY_CURRENT_CONVERSATION = items st2 KEY_CURRENT_CONVERSATION \<longrightarrow>
      loadInitialState st1 outcome s = loadInitialState st2 outcome s) \<and>
   conversations (loadInitialState st outcome s) =
     (case outcome of
        Rejected \<Rightarrow> conversations s
      | Resolved response \<Rightarrow>
          if success response
          then (case data response of None \<Rightarrow> conversations s | Some d \<Rightarrow> limitConversations d)
          else conversations s) \<and>
   isLoading (loadInitialState st outcome s) = False \<and>
   (\<forall>response d. outcome = Resolved response \<longrightarrow> success response \<longrightarrow>
      data response = Some d \<longrightarrow>
        conversations (loadInitialState st outcome s) = limitConversations d \<and>
        length (conversations (loadInitialState st outcome s)) \<le> MAX_CONVERSATIONS \<and>
        set (conversations (loadInitialState st outcome s)) \<subseteq> set d \<and>
        error (loadInitialState st outcome s) = None) \<and>
   (backendFailed outcome \<longrightarrow>
      conversations (loadInitialState st outcome s) = conversations s \<and>
      (\<exists>e. error (loadInitialState st outcome s) = Some e \<and> e \<noteq> [])) \<and>
   (available st \<longrightarrow> i \<noteq> [] \<longrightarrow>
      currentConversationId
        (loadInitialState
           (storageUtils_saveCurrentConversationId toISO
              (storageUtils_saveConversations toISO st cs) (Some i)) outcome s) = Some i \<and>
      conversations
        (loadInitialState
           (storageUtils_saveCurrentConversationId toISO
              (storageUtils_saveConversations toISO st cs) (Some i)) outcome s) =
        conversations (loadInitialState st outcome s))"
proof -
  have indep: "available st1 = available st2 \<longrightarrow>
      items st1 KEY_CURRENT_CONVERSATION = items st2 KEY_CURRENT_CONVERSATION \<longrightarrow>
      loadInitialState st1 outcome s = loadInitialState st2 outcome s"
    using loadInitialState_reads_one_item by blast
  have loading: "isLoading (loadInitialState st outcome s) = False"
    by (simp add: loadInitialState_def settle_selection_and_loading)
  have success_case: "\<forall>response d. outcome = Resolved response \<longrightarrow> success response \<longrightarrow>
      data response = Some d \<longrightarrow>
        conversations (loadInitialState st outcome s) = limitConversations d \<and>
        length (conversations (loadInitialState st outcome s)) \<le> MAX_CONVERSATIONS \<and>
        set (conversations (loadInitialState st outcome s)) \<subseteq> set d \<and>
        error (loadInitialState st outcome s) = None"
  proof (intro allI impI)
    fix response d
    assume ok: "outcome = Resolved response" and succ: "success response"
      and dat: "data response = Some d"
    have cs: "conversations (loadInitialState st outcome s) = limitConversations d"
      by (simp add: loadInitialState_conversations ok succ dat)
    have er: "error (loadInitialState st outcome s) = None"
      using settle_success[OF succ dat, of "loadCurrentConversation st (loadConversations_begin s)"]
      by (simp add: loadInitialState_def ok loadCurrentConversation_error
            loadConversations_begin_fields)
    show "conversations (loadInitialState st outcome s) = limitConversations d \<and>
        length (conversations (loadInitialState st outcome s)) \<le> MAX_CONVERSATIONS \<and>
        set (conversations (loadInitialState st outcome s)) \<subseteq> set d \<and>
        error (loadInitialState st outcome s) = None"
      using limitConversations_length[of d] limitConversations_subset[of d] er
      by (simp add: cs)
  qed
  have failure_case: "backendFailed outcome \<longrightarrow>
      conversations (loadInitialState st outcome s) = conversations s \<and>
      (\<exists>e. error (loadInitialState st outcome s) = Some e \<and> e \<noteq> [])"
  proof
    assume f: "backendFailed outcome"
    have "conversations (loadInitialState st outcome s) = conversations s"
      using f by (simp add: loadInitialState_conversations backendFailed_def
                    split: ApiOutcome.splits)
    moreover have "\<exists>e. error (loadInitialState st outcome s) = Some e \<and> e \<noteq> []"
      unfolding loadInitialState_def by (rule settle_failed_load[OF f])
    ultimately show "conversations (loadInitialState st outcome s) = conversations s \<and>
      (\<exists>e. error (loadInitialState st outcome s) = Some e \<and> e \<noteq> [])"
      by blast
  qed
  have saved: "available st \<longrightarrow> i \<noteq> [] \<longrightarrow>
      currentConversationId
        (loadInitialState
           (storageUtils_saveCurrentConversationId toISO
              (storageUtils_saveConversations toISO st cs) (Some i)) outcome s) = Some i \<and>
      conversations
        (loadInitialState
           (storageUtils_saveCurrentConversationId toISO
              (storageUtils_saveConversations toISO st cs) (Some i)) outcome s) =
        conversations (loadInitialState st outcome s)"
  proof (intro impI)
    assume av: "available st" and ne: "i \<noteq> []"
    have av': "available (storageUtils_saveConversations toISO st cs)"
      using av by (simp add: saveConversations_available)
    have "currentConversationId
        (loadInitialState
           (storageUtils_saveCurrentConversationId toISO
              (storageUtils_saveConversations toISO st cs) (Some i)) outcome s) = Some i"
      by (simp add: loadInitialState_def settle_selection_and_loading
            saved_id_is_read[OF av' ne])
    then show "currentConversationId
        (loadInitialState
           (storageUtils_saveCurrentConversationId toISO
              (storageUtils_saveConversations toISO st cs) (Some i)) outcome s) = Some i \<and>
      conversations
        (loadInitialState
           (storageUtils_saveCurrentConversationId toISO
              (storageUtils_saveConversations toISO st cs) (Some i)) outcome s) =
        conversations (loadInitialState st outcome s)"
      by (simp add: loadInitialState_conversations)
  qed
  note cs = loadInitialState_conversations[of st outcome s]
  show ?thesis
    by (rule conjI[OF indep conjI[OF cs conjI[OF loading conjI[OF success_case
          conjI[OF failure_case saved]]]]])
qed

theorem loadInitialState_installs_backend_list_witness:
  "available exStorage = available emptyStorage \<and>
   items exStorage KEY_CURRENT_CONVERSATION = items emptyStorage KEY_CURRENT_CONVERSATION \<and>
   storageUtils_loadConversations exStorage \<noteq> storageUtils_loadConversations emptyStorage \<and>
   loadInitialState exStorage Rejected initialState =
     loadInitialState emptyStorage Rejected initialState \<and>
   backendFailed (Rejected :: Conversation list ApiOutcome) \<and>
   conversations (loadInitialState exStorage Rejected initialState) = [] \<and>
   error (loadInitialState exStorage Rejected initialState) \<noteq> None \<and>
   isLoading (loadInitialState exStorage Rejected initialState) = False \<and>
   conversations (loadInitialState exStorage exListOk initialState) = [exConv2] \<and>
   error (loadInitialState exStorage exListOk initialState) = None \<and>
   lit ''c1'' \<noteq> [] \<and>
   currentConversationId
     (loadInitialState
        (storageUtils_saveCurrentConversationId (\<lambda>t. lit ''1970-01-01T00:00:00.000Z'')
           (storageUtils_saveConversations (\<lambda>t. lit ''1970-01-01T00:00:00.000Z'') exStorage
              [Conversation_js exConv]) (Some (lit ''c1'')))
        Rejected initialState) = Some (lit ''c1'')"
proof -
  have keys: "KEY_CURRENT_CONVERSATION \<noteq> KEY_CONVERSATIONS"
    by (simp add: KEY_CURRENT_CONVERSATION_def KEY_CONVERSATIONS_def lit_def)
  have av: "available exStorage" "available emptyStorage"
    by (simp_all add: exStorage_def emptyStorage_def)
  have it: "items exStorage KEY_CURRENT_CONVERSATION = items emptyStorage KEY_CURRENT_CONVERSATION"
    using keys by (simp add: exStorage_def emptyStorage_def)
  have persisted: "storageUtils_loadConversations exStorage \<noteq>
      storageUtils_loadConversations emptyStorage"
    by (simp add: storageUtils_loadConversations_def getItem_def exStorage_def emptyStorage_def)
  have rej: "backendFailed (Rejected :: Conversation list ApiOutcome)"
    by (simp add: backendFailed_def)
  have ne: "lit ''c1'' \<noteq> []"
    by (simp add: lit_def)
  have init: "conversations initialState = []"
    by (simp add: initialState_def)
  have lim: "limitConversations [exConv2] = [exConv2]"
    by (simp add: limitConversations_def sortConversationsByDate_def MAX_CONVERSATIONS_def)
  have ok: "exListOk = Resolved \<lparr>data = Some [exConv2], success = True,
               message = Some (lit ''Conversations loaded successfully'')\<rparr>"
    by (simp add: exListOk_def)
  note t1 = loadInitialState_installs_backend_list
     [of exStorage emptyStorage Rejected initialState exStorage "lit ''c1''"
         "\<lambda>t. lit ''1970-01-01T00:00:00.000Z''" "[Conversation_js exConv]"]
  note t2 = loadInitialState_installs_backend_list
     [of exStorage emptyStorage exListOk initialState exStorage "lit ''c1''"
         "\<lambda>t. lit ''1970-01-01T00:00:00.000Z''" "[Conversation_js exConv]"]
  have a: "loadInitialState exStorage Rejected initialState =
     loadInitialState emptyStorage Rejected initialState"
    using t1 av it by blast
  have b: "conversations (loadInitialState exStorage Rejected initialState) = []"
    using t1 rej init by simp
  have c: "error (loadInitialState exStorage Rejected initialState) \<noteq> None"
    using t1 rej by auto
  have d: "isLoading (loadInitialState exStorage Rejected initialState) = False"
    using t1 by blast
  have h2: "success \<lparr>data = Some [exConv2], success = True,
               message = Some (lit ''Conversations loaded successfully'')\<rparr>"
    by simp
  have h3: "data \<lparr>data = Some [exConv2], success = True,
               message = Some (lit ''Conversations loaded successfully'')\<rparr> = Some [exConv2]"
    by simp
  note t2s = t2[THEN conjunct2, THEN conjunct2, THEN conjunct2, THEN conjunct1, rule_format,
                OF ok h2 h3]
  have e: "conversations (loadInitialState exStorage exListOk initialState) = [exConv2] \<and>
     error (loadInitialState exStorage exListOk initialState) = None"
    using t2s lim by simp
  have f: "currentConversationId
     (loadInitialState
        (storageUtils_saveCurrentConversationId (\<lambda>t. lit ''1970-01-01T00:00:00.000Z'')
           (storageUtils_saveConversations (\<lambda>t. lit ''1970-01-01T00:00:00.000Z'') exStorage
              [Conversation_js exConv]) (Some (lit ''c1'')))
        Rejected initialState) = Some (lit ''c1'')"
    using t1 av(1) ne by blast
  show ?thesis using av it persisted a rej b c d e ne f by simp
qed

end
